theory Spec2Isabelle
  imports Main "HOL-Library.Word"
begin

section \<open>Data model of \<^verbatim>\<open>pkg/security/auth.go\<close>\<close>

text \<open>
  A Go \<^verbatim>\<open>error\<close> built by \<^verbatim>\<open>errors.New\<close> or \<^verbatim>\<open>errors.Errorf\<close> is known to its callers
  through its message only, so an error is its message. A function returning
  \<^verbatim>\<open>error\<close> returns \<open>None\<close> for \<^verbatim>\<open>nil\<close>; a function returning \<^verbatim>\<open>(T, error)\<close>
  returns \<open>Inl\<close> of the error or \<open>Inr\<close> of the value.
\<close>

type_synonym error = string

type_synonym byte = "8 word"

definition NodeUser :: string where
  "NodeUser = ''node''"

definition RootUser :: string where
  "RootUser = ''root''"

text \<open>\<^verbatim>\<open>type UserAuthHook func(string, bool) error\<close>\<close>

type_synonym UserAuthHook = "string \<Rightarrow> bool \<Rightarrow> error option"

text \<open>
  The fields of \<^verbatim>\<open>tls.ConnectionState\<close> and \<^verbatim>\<open>x509.Certificate\<close> that the code reads.
  The transport layer fills \<^verbatim>\<open>PeerCertificates\<close> with parsed certificates, so the
  pointers in the slice are taken to be non-nil and a certificate is a value.
  The pointer \<^verbatim>\<open>*tls.ConnectionState\<close> itself may be \<^verbatim>\<open>nil\<close>: it is an \<open>option\<close>.
\<close>

record pkix_Name =
  CommonName :: string

record x509_Certificate =
  Subject :: pkix_Name

record tls_ConnectionState =
  PeerCertificates :: "x509_Certificate list"
  VerifiedChains :: "x509_Certificate list list"

text \<open>
  A \<^verbatim>\<open>proto.Message\<close> as the code observes it: the name of its dynamic type
  (what the verb \<^verbatim>\<open>%T\<close> prints), its \<^verbatim>\<open>String()\<close> (what \<^verbatim>\<open>%s\<close> prints), and
  the result of \<^verbatim>\<open>GetUser()\<close> when the dynamic type implements \<^verbatim>\<open>RequestWithUser\<close>
  (\<open>None\<close> when the type assertion \<^verbatim>\<open>request.(RequestWithUser)\<close> fails).
\<close>

record proto_Message =
  GoType :: string
  String :: string
  GetUser :: "string option"

section \<open>The functions\<close>

definition GetCertificateUser :: "tls_ConnectionState option \<Rightarrow> error + string" where
  "GetCertificateUser tlsState =
     (case tlsState of
        None \<Rightarrow> Inl ''request is not using TLS''
      | Some s \<Rightarrow>
          (case PeerCertificates s of
             [] \<Rightarrow> Inl ''no client certificates in request''
           | c # _ \<Rightarrow>
               if length (VerifiedChains s) \<noteq> length (PeerCertificates s)
               then Inl ''client cerficates not verified''
               else Inr (CommonName (Subject c))))"

text \<open>
  \<^verbatim>\<open>UserAuthCertHook\<close>: \<^verbatim>\<open>certUser\<close> starts as the empty string and is assigned only
  in secure mode, before the closure is built.
\<close>

definition UserAuthCertHook ::
    "bool \<Rightarrow> tls_ConnectionState option \<Rightarrow> error + UserAuthHook" where
  "UserAuthCertHook insecureMode tlsState =
     (case (if \<not> insecureMode then GetCertificateUser tlsState else Inr []) of
        Inl err \<Rightarrow> Inl err
      | Inr certUser \<Rightarrow>
          Inr (\<lambda>requestedUser clientConnection.
            if length requestedUser = 0 then Some ''user is missing''
            else if \<not> clientConnection \<and> requestedUser \<noteq> NodeUser
              then Some (''user '' @ requestedUser @ '' is not allowed'')
            else if insecureMode then None
            else if \<not> (certUser = NodeUser \<or> certUser = requestedUser)
              then Some (''requested user is '' @ requestedUser @
                         '', but certificate is for '' @ certUser)
            else None))"

definition ProtoAuthHook ::
    "bool \<Rightarrow> tls_ConnectionState option \<Rightarrow> error + (proto_Message \<Rightarrow> bool \<Rightarrow> error option)" where
  "ProtoAuthHook insecureMode tlsState =
     (case UserAuthCertHook insecureMode tlsState of
        Inl err \<Rightarrow> Inl err
      | Inr userHook \<Rightarrow>
          Inr (\<lambda>request clientConnection.
            case GetUser request of
              None \<Rightarrow> Some (''unknown request type: '' @ GoType request)
            | Some user \<Rightarrow>
                (case userHook user clientConnection of
                   Some err \<Rightarrow> Some (err @ '' error in request: '' @ String request)
                 | None \<Rightarrow> None)))"

text \<open>
  \<^verbatim>\<open>UserAuthPasswordHook\<close>. The helper \<^verbatim>\<open>compareHashAndPassword\<close> lives in another file
  of the package; it is the first parameter here, a function from the stored hash
  and the password to \<^verbatim>\<open>nil\<close> or an error.
\<close>

definition UserAuthPasswordHook ::
    "(byte list \<Rightarrow> string \<Rightarrow> error option) \<Rightarrow> bool \<Rightarrow> string \<Rightarrow> byte list \<Rightarrow> UserAuthHook" where
  "UserAuthPasswordHook compareHashAndPassword insecureMode password hashedPassword =
     (\<lambda>requestedUser clientConnection.
        if length requestedUser = 0 then Some ''user is missing''
        else if \<not> clientConnection
          then Some ''password authentication is only available for client connections''
        else if insecureMode then None
        else if requestedUser = RootUser
          then Some (''user '' @ RootUser @ '' must authenticate using a client certificate '')
        else if length password = 0 \<or> compareHashAndPassword hashedPassword password \<noteq> None
          then Some ''invalid password''
        else None)"

text \<open>
  An instance of the comparison parameter for evaluating the hook on concrete
  inputs: it accepts exactly when the stored bytes are the bytes of the password.
\<close>

definition plainCompare :: "byte list \<Rightarrow> string \<Rightarrow> error option" where
  "plainCompare hashedPassword password =
     (if map unat hashedPassword = map of_char password then None
      else Some ''hashedPassword is not the hash of the given password'')"

text \<open>Handshake results and certificates for evaluating the functions on concrete inputs.\<close>

abbreviation certOf :: "string \<Rightarrow> x509_Certificate" where
  "certOf cn \<equiv> \<lparr>Subject = \<lparr>CommonName = cn\<rparr>\<rparr>"

abbreviation handshake ::
    "x509_Certificate list \<Rightarrow> x509_Certificate list list \<Rightarrow> tls_ConnectionState option" where
  "handshake peerCerts verified \<equiv>
     Some \<lparr>PeerCertificates = peerCerts, VerifiedChains = verified\<rparr>"

section \<open>Identity extraction\<close>

lemma GetCertificateUser_nil:
  "GetCertificateUser None = Inl ''request is not using TLS''"
  by (simp add: GetCertificateUser_def)

lemma GetCertificateUser_no_certs:
  "PeerCertificates s = [] \<Longrightarrow>
     GetCertificateUser (Some s) = Inl ''no client certificates in request''"
  by (simp add: GetCertificateUser_def)

lemma GetCertificateUser_unverified:
  "PeerCertificates s \<noteq> [] \<Longrightarrow> length (VerifiedChains s) \<noteq> length (PeerCertificates s) \<Longrightarrow>
     GetCertificateUser (Some s) = Inl ''client cerficates not verified''"
  by (cases "PeerCertificates s") (simp_all add: GetCertificateUser_def)

lemma GetCertificateUser_ok:
  "PeerCertificates s = c # cs \<Longrightarrow> length (VerifiedChains s) = length (PeerCertificates s) \<Longrightarrow>
     GetCertificateUser (Some s) = Inr (CommonName (Subject c))"
  by (simp add: GetCertificateUser_def)

text \<open>
  Claim C4. \<^verbatim>\<open>GetCertificateUser\<close> checks in this order: a \<^verbatim>\<open>nil\<close> handshake result
  fails with "request is not using TLS" (NoTLS); a result with no presented
  certificate fails with "no client certificates in request" (NoPeerCertificate);
  a result whose number of verified chains differs from the number of presented
  certificates fails with "client cerficates not verified" (UnverifiedCertificate);
  every other result succeeds with the common name of the first presented certificate.
\<close>

theorem GetCertificateUser_outcomes:
  "(tlsState = None \<longrightarrow> GetCertificateUser tlsState = Inl ''request is not using TLS'') \<and>
   (\<forall>s. tlsState = Some s \<and> length (PeerCertificates s) = 0 \<longrightarrow>
        GetCertificateUser tlsState = Inl ''no client certificates in request'') \<and>
   (\<forall>s. tlsState = Some s \<and> length (PeerCertificates s) \<noteq> 0 \<and>
        length (VerifiedChains s) \<noteq> length (PeerCertificates s) \<longrightarrow>
        GetCertificateUser tlsState = Inl ''client cerficates not verified'') \<and>
   (\<forall>s. tlsState = Some s \<and> length (PeerCertificates s) \<noteq> 0 \<and>
        length (VerifiedChains s) = length (PeerCertificates s) \<longrightarrow>
        GetCertificateUser tlsState = Inr (CommonName (Subject (PeerCertificates s ! 0))))"
proof (cases tlsState)
  case None
  then show ?thesis by (simp add: GetCertificateUser_nil)
next
  case (Some s)
  show ?thesis
  proof (cases "PeerCertificates s")
    case Nil
    with Some show ?thesis by (simp add: GetCertificateUser_no_certs)
  next
    case (Cons c cs)
    with Some show ?thesis
      using GetCertificateUser_unverified [of s] GetCertificateUser_ok [of s c cs]
      by auto
  qed
qed

theorem GetCertificateUser_outcomes_witness:
  "GetCertificateUser None = Inl ''request is not using TLS'' \<and>
   GetCertificateUser (handshake [] []) = Inl ''no client certificates in request'' \<and>
   GetCertificateUser (handshake [certOf ''alice'', certOf ''ca''] [[certOf ''alice'']])
     = Inl ''client cerficates not verified'' \<and>
   GetCertificateUser (handshake [certOf ''alice''] [[certOf ''alice'', certOf ''ca'']])
     = Inr ''alice''"
  using GetCertificateUser_outcomes [of None]
    GetCertificateUser_outcomes [of "handshake [] []"]
    GetCertificateUser_outcomes
      [of "handshake [certOf ''alice'', certOf ''ca''] [[certOf ''alice'']]"]
    GetCertificateUser_outcomes
      [of "handshake [certOf ''alice''] [[certOf ''alice'', certOf ''ca'']]"]
  by simp

text \<open>
  Claim C10. A handshake result with no presented certificate fails with
  "no client certificates in request" whatever its verified chains are: the check
  for an empty certificate list comes before the comparison of the two counts, so
  the result is neither "client cerficates not verified" nor a success.
\<close>

theorem GetCertificateUser_empty_certs_first:
  "PeerCertificates s = [] \<Longrightarrow>
     GetCertificateUser (Some s) = Inl ''no client certificates in request'' \<and>
     GetCertificateUser (Some s) \<noteq> Inl ''client cerficates not verified'' \<and>
     (\<forall>user. GetCertificateUser (Some s) \<noteq> Inr user)"
  by (simp add: GetCertificateUser_no_certs)

theorem GetCertificateUser_empty_certs_first_witness:
  "GetCertificateUser (handshake [] []) = Inl ''no client certificates in request'' \<and>
   GetCertificateUser (handshake [] [[certOf ''alice'']])
     = Inl ''no client certificates in request''"
  using GetCertificateUser_empty_certs_first
      [of "\<lparr>PeerCertificates = [], VerifiedChains = []\<rparr>"]
    GetCertificateUser_empty_certs_first
      [of "\<lparr>PeerCertificates = [], VerifiedChains = [[certOf ''alice'']]\<rparr>"]
  by simp

section \<open>The certificate hook\<close>

lemma UserAuthCertHook_secure:
  "GetCertificateUser tlsState = Inr certUser \<Longrightarrow>
     UserAuthCertHook False tlsState =
       Inr (\<lambda>requestedUser clientConnection.
            if requestedUser = [] then Some ''user is missing''
            else if \<not> clientConnection \<and> requestedUser \<noteq> NodeUser
              then Some (''user '' @ requestedUser @ '' is not allowed'')
            else if \<not> (certUser = NodeUser \<or> certUser = requestedUser)
              then Some (''requested user is '' @ requestedUser @
                         '', but certificate is for '' @ certUser)
            else None)"
  by (simp add: UserAuthCertHook_def fun_eq_iff)

lemma UserAuthCertHook_secure_error:
  "(UserAuthCertHook False tlsState = Inl err) = (GetCertificateUser tlsState = Inl err)"
  by (cases "GetCertificateUser tlsState") (simp_all add: UserAuthCertHook_def)

lemma UserAuthCertHook_insecure:
  "UserAuthCertHook True tlsState =
     Inr (\<lambda>requestedUser clientConnection.
          if requestedUser = [] then Some ''user is missing''
          else if \<not> clientConnection \<and> requestedUser \<noteq> NodeUser
            then Some (''user '' @ requestedUser @ '' is not allowed'')
          else None)"
  by (simp add: UserAuthCertHook_def fun_eq_iff)

text \<open>
  Claim C2, as amended. In secure mode, when the certificate identity is \<open>U\<close> and
  \<open>U\<close> is not \<open>node\<close>, the build succeeds and the hook succeeds if and only if the
  claimed user is \<open>U\<close>, the claimed user is not empty, and the connection is a
  client connection. (A certificate with an empty common name resolves to the empty
  identity; claiming the empty user then fails with "user is missing".)
\<close>

theorem UserAuthCertHook_other_identity:
  assumes "GetCertificateUser tlsState = Inr U" and "U \<noteq> NodeUser"
  shows "\<exists>hook. UserAuthCertHook False tlsState = Inr hook \<and>
           (\<forall>claimedUsername isClientConnection.
              (hook claimedUsername isClientConnection = None) =
              (claimedUsername = U \<and> claimedUsername \<noteq> [] \<and> isClientConnection))"
  using assms by (auto simp add: UserAuthCertHook_secure)

theorem UserAuthCertHook_other_identity_witness:
  "GetCertificateUser (handshake [certOf ''alice''] [[certOf ''alice'']]) = Inr ''alice'' \<and>
   ''alice'' \<noteq> NodeUser \<and>
   (\<exists>hook. UserAuthCertHook False (handshake [certOf ''alice''] [[certOf ''alice'']]) = Inr hook \<and>
      hook ''alice'' True = None \<and>
      hook ''bob'' True \<noteq> None \<and>
      hook ''alice'' False \<noteq> None)"
proof -
  have id: "GetCertificateUser (handshake [certOf ''alice''] [[certOf ''alice'']]) = Inr ''alice''"
    by (simp add: GetCertificateUser_def)
  have ne: "''alice'' \<noteq> NodeUser"
    by (simp add: NodeUser_def)
  from UserAuthCertHook_other_identity [OF id ne] obtain hook where
    "UserAuthCertHook False (handshake [certOf ''alice''] [[certOf ''alice'']]) = Inr hook"
    and h: "\<And>u c. (hook u c = None) = (u = ''alice'' \<and> u \<noteq> [] \<and> c)"
    by blast
  moreover have "hook ''alice'' True = None"
    by (simp add: h)
  moreover have "hook ''bob'' True \<noteq> None"
    by (simp add: h)
  moreover have "hook ''alice'' False \<noteq> None"
    by (simp add: h)
  ultimately show ?thesis
    using id ne by blast
qed

text \<open>
  The claim as written (success if and only if the claimed user is \<open>U\<close> on a client
  connection) fails for a certificate whose common name is empty: the identity is
  the empty string, which is not \<open>node\<close>; a client connection claiming the empty
  user claims exactly \<open>U\<close>, and the hook fails with "user is missing".
\<close>

theorem UserAuthCertHook_empty_identity_counterexample:
  "GetCertificateUser (handshake [certOf []] [[certOf []]]) = Inr [] \<and>
   [] \<noteq> NodeUser \<and>
   \<not> isl (UserAuthCertHook False (handshake [certOf []] [[certOf []]])) \<and>
   projr (UserAuthCertHook False (handshake [certOf []] [[certOf []]])) [] True
     = Some ''user is missing''"
  by (simp add: UserAuthCertHook_def GetCertificateUser_def NodeUser_def)

text \<open>
  Claim C3. In secure mode, when the certificate identity is \<open>node\<close>, the build
  succeeds; on a client connection the hook succeeds for every non-empty claimed
  user, and on a non-client connection it succeeds exactly when the claimed user is
  \<open>node\<close>.
\<close>

theorem UserAuthCertHook_node_identity:
  assumes "GetCertificateUser tlsState = Inr NodeUser"
  shows "\<exists>hook. UserAuthCertHook False tlsState = Inr hook \<and>
           (\<forall>claimedUsername. claimedUsername \<noteq> [] \<longrightarrow> hook claimedUsername True = None) \<and>
           (\<forall>claimedUsername. (hook claimedUsername False = None) = (claimedUsername = NodeUser))"
  using assms by (auto simp add: UserAuthCertHook_secure NodeUser_def)

theorem UserAuthCertHook_node_identity_witness:
  "GetCertificateUser (handshake [certOf ''node''] [[certOf ''node'']]) = Inr NodeUser \<and>
   (\<exists>hook. UserAuthCertHook False (handshake [certOf ''node''] [[certOf ''node'']]) = Inr hook \<and>
      hook ''alice'' True = None \<and>
      hook ''node'' False = None \<and>
      hook ''alice'' False \<noteq> None)"
proof -
  have id: "GetCertificateUser (handshake [certOf ''node''] [[certOf ''node'']]) = Inr NodeUser"
    by (simp add: GetCertificateUser_def NodeUser_def)
  from UserAuthCertHook_node_identity [OF id] obtain hook where
    "UserAuthCertHook False (handshake [certOf ''node''] [[certOf ''node'']]) = Inr hook"
    and client: "\<And>u. u \<noteq> [] \<Longrightarrow> hook u True = None"
    and node: "\<And>u. (hook u False = None) = (u = NodeUser)"
    by blast
  moreover have "hook ''alice'' True = None"
    by (simp add: client)
  moreover have "hook ''node'' False = None"
    by (simp add: node NodeUser_def)
  moreover have "hook ''alice'' False \<noteq> None"
    by (simp add: node NodeUser_def)
  ultimately show ?thesis
    using id by blast
qed

text \<open>
  Claim C5. In secure mode \<^verbatim>\<open>UserAuthCertHook\<close> returns the build error \<open>err\<close> exactly
  when \<^verbatim>\<open>GetCertificateUser\<close> fails with \<open>err\<close> on the handshake result. In insecure
  mode the build succeeds, and the hook it returns is the same for every handshake
  result.
\<close>

theorem UserAuthCertHook_build:
  "(UserAuthCertHook False tlsState = Inl err) = (GetCertificateUser tlsState = Inl err) \<and>
   (\<exists>hook. UserAuthCertHook True tlsState = Inr hook) \<and>
   UserAuthCertHook True tlsState = UserAuthCertHook True tlsState'"
  by (simp add: UserAuthCertHook_secure_error UserAuthCertHook_insecure)

theorem UserAuthCertHook_build_witness:
  "UserAuthCertHook False None = Inl ''request is not using TLS'' \<and>
   UserAuthCertHook False (handshake [certOf ''alice'', certOf ''ca''] [[certOf ''alice'']])
     = Inl ''client cerficates not verified'' \<and>
   (\<exists>hook. UserAuthCertHook True None = Inr hook) \<and>
   UserAuthCertHook True None = UserAuthCertHook True (handshake [certOf ''alice''] [[certOf ''alice'']])"
proof -
  note nil = UserAuthCertHook_build [of None "''request is not using TLS''"
      "handshake [certOf ''alice''] [[certOf ''alice'']]"]
  note unverified = UserAuthCertHook_build
      [of "handshake [certOf ''alice'', certOf ''ca''] [[certOf ''alice'']]"
        "''client cerficates not verified''" None]
  have "GetCertificateUser None = Inl ''request is not using TLS''"
    by (simp add: GetCertificateUser_def)
  with nil have 1: "UserAuthCertHook False None = Inl ''request is not using TLS''"
    by blast
  have "GetCertificateUser (handshake [certOf ''alice'', certOf ''ca''] [[certOf ''alice'']])
      = Inl ''client cerficates not verified''"
    by (simp add: GetCertificateUser_def)
  with unverified have 2:
    "UserAuthCertHook False (handshake [certOf ''alice'', certOf ''ca''] [[certOf ''alice'']])
      = Inl ''client cerficates not verified''"
    by blast
  from nil have 3: "\<exists>hook. UserAuthCertHook True None = Inr hook"
    by blast
  from nil have 4: "UserAuthCertHook True None =
      UserAuthCertHook True (handshake [certOf ''alice''] [[certOf ''alice'']])"
    by blast
  from 1 2 3 4 show ?thesis
    by blast
qed

section \<open>The password hook\<close>

lemma UserAuthPasswordHook_client:
  "requestedUser \<noteq> [] \<Longrightarrow>
     UserAuthPasswordHook cmp insecureMode password hashedPassword requestedUser True =
       (if insecureMode then None
        else if requestedUser = RootUser
          then Some ''user root must authenticate using a client certificate ''
        else if password = [] \<or> cmp hashedPassword password \<noteq> None
          then Some ''invalid password''
        else None)"
  by (simp add: UserAuthPasswordHook_def RootUser_def)

lemma RootUser_not_empty: "RootUser \<noteq> []"
  by (simp add: RootUser_def)

text \<open>
  Claim C1, as amended. In secure mode, for every comparison primitive, password and
  stored hash, the password hook fails with "user root must authenticate using a
  client certificate " (RootRequiresCertificate) when a client connection claims
  \<open>root\<close>, also when the password matches the hash. In insecure mode the same call
  succeeds.
\<close>

theorem UserAuthPasswordHook_root:
  "(\<not> insecureMode \<longrightarrow>
      UserAuthPasswordHook cmp insecureMode password hashedPassword RootUser True =
        Some ''user root must authenticate using a client certificate '') \<and>
   (insecureMode \<longrightarrow>
      UserAuthPasswordHook cmp insecureMode password hashedPassword RootUser True = None)"
  by (simp add: UserAuthPasswordHook_client RootUser_not_empty)

theorem UserAuthPasswordHook_root_witness:
  "plainCompare [0x73, 0x65, 0x63, 0x72, 0x65, 0x74] ''secret'' = None \<and>
   UserAuthPasswordHook plainCompare False ''secret'' [0x73, 0x65, 0x63, 0x72, 0x65, 0x74]
       ''root'' True =
     Some ''user root must authenticate using a client certificate '' \<and>
   UserAuthPasswordHook plainCompare True ''secret'' [0x73, 0x65, 0x63, 0x72, 0x65, 0x74]
       ''root'' True = None"
  using UserAuthPasswordHook_root
      [of False plainCompare "''secret''" "[0x73, 0x65, 0x63, 0x72, 0x65, 0x74]"]
    UserAuthPasswordHook_root
      [of True plainCompare "''secret''" "[0x73, 0x65, 0x63, 0x72, 0x65, 0x74]"]
  by (simp add: RootUser_def plainCompare_def)

text \<open>
  The claim as written covers insecure mode too. There the hook returns before it
  looks at the claimed user: a client connection claiming \<open>root\<close> succeeds.
\<close>

theorem UserAuthPasswordHook_root_insecure_counterexample:
  "UserAuthPasswordHook plainCompare True ''secret'' [0x73, 0x65, 0x63, 0x72, 0x65, 0x74]
       ''root'' True = None \<and>
   UserAuthPasswordHook plainCompare True ''secret'' [0x73, 0x65, 0x63, 0x72, 0x65, 0x74]
       ''root'' True \<noteq>
     Some ''user root must authenticate using a client certificate ''"
  by (simp add: UserAuthPasswordHook_def)

text \<open>
  Claim C6, as amended. For every mode, comparison primitive, password and stored
  hash, and every claimed user that is not empty, the password hook fails on a
  non-client connection with "password authentication is only available for client
  connections" (ClientOnly).
\<close>

theorem UserAuthPasswordHook_client_only:
  "claimedUsername \<noteq> [] \<Longrightarrow>
     UserAuthPasswordHook cmp insecureMode password hashedPassword claimedUsername False =
       Some ''password authentication is only available for client connections''"
  by (simp add: UserAuthPasswordHook_def)

theorem UserAuthPasswordHook_client_only_witness:
  "UserAuthPasswordHook plainCompare False ''secret'' [0x73, 0x65, 0x63, 0x72, 0x65, 0x74]
       ''alice'' False =
     Some ''password authentication is only available for client connections'' \<and>
   UserAuthPasswordHook plainCompare True [] [] ''node'' False =
     Some ''password authentication is only available for client connections''"
  using UserAuthPasswordHook_client_only
      [of "''alice''" plainCompare False "''secret''" "[0x73, 0x65, 0x63, 0x72, 0x65, 0x74]"]
    UserAuthPasswordHook_client_only [of "''node''" plainCompare True "[]" "[]"]
  by simp

text \<open>
  The claim as written covers the empty claimed user too. The hook checks for it
  first: on a non-client connection the empty user fails with "user is missing".
\<close>

theorem UserAuthPasswordHook_missing_user_counterexample:
  "UserAuthPasswordHook plainCompare False ''secret'' [0x73, 0x65, 0x63, 0x72, 0x65, 0x74]
       [] False = Some ''user is missing'' \<and>
   UserAuthPasswordHook plainCompare False ''secret'' [0x73, 0x65, 0x63, 0x72, 0x65, 0x74]
       [] False \<noteq>
     Some ''password authentication is only available for client connections''"
  by (simp add: UserAuthPasswordHook_def)

text \<open>
  Claim C7. In secure mode, on a client connection claiming a user that is neither
  empty nor \<open>root\<close>, the password hook fails with "invalid password"
  (InvalidCredentials) exactly when the password is empty or the comparison of the
  stored hash with the password returns an error; otherwise it succeeds.
\<close>

theorem UserAuthPasswordHook_credentials:
  assumes "claimedUsername \<noteq> []" and "claimedUsername \<noteq> RootUser"
  shows "(UserAuthPasswordHook cmp False password hashedPassword claimedUsername True =
            Some ''invalid password'') =
         (password = [] \<or> cmp hashedPassword password \<noteq> None) \<and>
         (UserAuthPasswordHook cmp False password hashedPassword claimedUsername True = None) =
         (\<not> (password = [] \<or> cmp hashedPassword password \<noteq> None))"
  using assms by (simp add: UserAuthPasswordHook_client)

theorem UserAuthPasswordHook_credentials_witness:
  "''alice'' \<noteq> [] \<and> ''alice'' \<noteq> RootUser \<and>
   UserAuthPasswordHook plainCompare False ''secret'' [0x73, 0x65, 0x63, 0x72, 0x65, 0x74]
       ''alice'' True = None \<and>
   UserAuthPasswordHook plainCompare False ''secres'' [0x73, 0x65, 0x63, 0x72, 0x65, 0x74]
       ''alice'' True = Some ''invalid password'' \<and>
   plainCompare [] [] = None \<and>
   UserAuthPasswordHook plainCompare False [] [] ''alice'' True = Some ''invalid password''"
proof -
  have ne: "''alice'' \<noteq> []" and nr: "''alice'' \<noteq> RootUser"
    by (simp_all add: RootUser_def)
  show ?thesis
    using ne nr
      UserAuthPasswordHook_credentials
        [OF ne nr, of plainCompare "''secret''" "[0x73, 0x65, 0x63, 0x72, 0x65, 0x74]"]
      UserAuthPasswordHook_credentials
        [OF ne nr, of plainCompare "''secres''" "[0x73, 0x65, 0x63, 0x72, 0x65, 0x74]"]
      UserAuthPasswordHook_credentials [OF ne nr, of plainCompare "[]" "[]"]
    by (simp add: plainCompare_def)
qed

section \<open>The request adapter\<close>

lemma ProtoAuthHook_error:
  "(ProtoAuthHook insecureMode tlsState = Inl err) =
   (UserAuthCertHook insecureMode tlsState = Inl err)"
  by (cases "UserAuthCertHook insecureMode tlsState") (simp_all add: ProtoAuthHook_def)

lemma ProtoAuthHook_built:
  "UserAuthCertHook insecureMode tlsState = Inr userHook \<Longrightarrow>
     ProtoAuthHook insecureMode tlsState =
       Inr (\<lambda>request clientConnection.
            case GetUser request of
              None \<Rightarrow> Some (''unknown request type: '' @ GoType request)
            | Some user \<Rightarrow>
                (case userHook user clientConnection of
                   Some err \<Rightarrow> Some (err @ '' error in request: '' @ String request)
                 | None \<Rightarrow> None))"
  by (simp add: ProtoAuthHook_def)

text \<open>
  Claim C8. \<^verbatim>\<open>ProtoAuthHook\<close> returns the build error \<open>err\<close> exactly when
  \<^verbatim>\<open>UserAuthCertHook\<close> returns \<open>err\<close> for the same mode and handshake result. When
  \<^verbatim>\<open>UserAuthCertHook\<close> returns the hook \<open>userHook\<close>, \<^verbatim>\<open>ProtoAuthHook\<close> returns a request
  hook that fails with "unknown request type: " followed by the request's type
  (UnsupportedRequestType) on every request without a claimed user; on a request
  with the claimed user \<open>user\<close> it succeeds if and only if \<open>userHook\<close> succeeds on
  \<open>user\<close> and the connection flag, and when \<open>userHook\<close> fails with \<open>e\<close> it fails
  with the message of \<open>e\<close> followed by " error in request: " and the request's text,
  so the message of the original failure is kept.
\<close>

theorem ProtoAuthHook_delegates:
  "(ProtoAuthHook insecureMode tlsState = Inl err) =
     (UserAuthCertHook insecureMode tlsState = Inl err) \<and>
   (\<forall>userHook. UserAuthCertHook insecureMode tlsState = Inr userHook \<longrightarrow>
      (\<exists>hook. ProtoAuthHook insecureMode tlsState = Inr hook \<and>
         (\<forall>request isClientConnection. GetUser request = None \<longrightarrow>
            hook request isClientConnection =
              Some (''unknown request type: '' @ GoType request)) \<and>
         (\<forall>request isClientConnection user. GetUser request = Some user \<longrightarrow>
            (hook request isClientConnection = None) =
              (userHook user isClientConnection = None) \<and>
            (\<forall>e. userHook user isClientConnection = Some e \<longrightarrow>
               hook request isClientConnection =
                 Some (e @ '' error in request: '' @ String request)))))"
proof (intro conjI allI impI)
  show "(ProtoAuthHook insecureMode tlsState = Inl err) =
     (UserAuthCertHook insecureMode tlsState = Inl err)"
    by (rule ProtoAuthHook_error)
next
  fix userHook
  assume "UserAuthCertHook insecureMode tlsState = Inr userHook"
  from ProtoAuthHook_built [OF this]
  show "\<exists>hook. ProtoAuthHook insecureMode tlsState = Inr hook \<and>
         (\<forall>request isClientConnection. GetUser request = None \<longrightarrow>
            hook request isClientConnection =
              Some (''unknown request type: '' @ GoType request)) \<and>
         (\<forall>request isClientConnection user. GetUser request = Some user \<longrightarrow>
            (hook request isClientConnection = None) =
              (userHook user isClientConnection = None) \<and>
            (\<forall>e. userHook user isClientConnection = Some e \<longrightarrow>
               hook request isClientConnection =
                 Some (e @ '' error in request: '' @ String request)))"
    by (auto split: option.splits)
qed

theorem ProtoAuthHook_delegates_witness:
  "ProtoAuthHook False None = Inl ''request is not using TLS'' \<and>
   (\<exists>hook. ProtoAuthHook False (handshake [certOf ''alice''] [[certOf ''alice'']]) = Inr hook \<and>
      hook \<lparr>GoType = ''*roachpb.Span'', String = ''key:a'', GetUser = None\<rparr> True =
        Some ''unknown request type: *roachpb.Span'' \<and>
      hook \<lparr>GoType = ''*server.PingRequest'', String = ''user:alice'', GetUser = Some ''alice''\<rparr>
          True = None \<and>
      hook \<lparr>GoType = ''*server.PingRequest'', String = ''user:bob'', GetUser = Some ''bob''\<rparr>
          True =
        Some ''requested user is bob, but certificate is for alice error in request: user:bob'')"
proof -
  let ?tls = "handshake [certOf ''alice''] [[certOf ''alice'']]"
  have "UserAuthCertHook False None = Inl ''request is not using TLS''"
    by (simp add: UserAuthCertHook_secure_error GetCertificateUser_nil)
  with ProtoAuthHook_delegates [of False None "''request is not using TLS''"]
  have nil: "ProtoAuthHook False None = Inl ''request is not using TLS''"
    by blast
  have id: "GetCertificateUser ?tls = Inr ''alice''"
    by (simp add: GetCertificateUser_def)
  define userHook where "userHook = projr (UserAuthCertHook False ?tls)"
  have built: "UserAuthCertHook False ?tls = Inr userHook"
    by (simp add: userHook_def UserAuthCertHook_secure [OF id])
  have alice: "userHook ''alice'' True = None"
    by (simp add: userHook_def UserAuthCertHook_secure [OF id] NodeUser_def)
  have bob: "userHook ''bob'' True =
      Some ''requested user is bob, but certificate is for alice''"
    by (simp add: userHook_def UserAuthCertHook_secure [OF id] NodeUser_def)
  note ProtoAuthHook_delegates [of False ?tls "[]", THEN conjunct2, THEN spec, THEN mp, OF built]
  then obtain hook where
    hook: "ProtoAuthHook False ?tls = Inr hook"
    and unknown: "\<forall>request c. GetUser request = None \<longrightarrow>
      hook request c = Some (''unknown request type: '' @ GoType request)"
    and known: "\<forall>request c user. GetUser request = Some user \<longrightarrow>
      (hook request c = None) = (userHook user c = None) \<and>
      (\<forall>e. userHook user c = Some e \<longrightarrow>
         hook request c = Some (e @ '' error in request: '' @ String request))"
    by (elim exE conjE)
  note same = known [rule_format, THEN conjunct1]
  note wrapped = known [rule_format, THEN conjunct2, rule_format]
  have "hook \<lparr>GoType = ''*roachpb.Span'', String = ''key:a'', GetUser = None\<rparr> True =
      Some ''unknown request type: *roachpb.Span''"
    by (simp add: unknown)
  moreover have
    "hook \<lparr>GoType = ''*server.PingRequest'', String = ''user:alice'', GetUser = Some ''alice''\<rparr>
      True = None"
    by (simp add: same [of _ "''alice''"] alice)
  moreover have
    "hook \<lparr>GoType = ''*server.PingRequest'', String = ''user:bob'', GetUser = Some ''bob''\<rparr>
      True =
      Some ''requested user is bob, but certificate is for alice error in request: user:bob''"
    using wrapped [of "\<lparr>GoType = ''*server.PingRequest'', String = ''user:bob'',
        GetUser = Some ''bob''\<rparr>" "''bob''" True, OF _ bob]
    by simp
  ultimately show ?thesis
    using nil hook by blast
qed

end
